theory Spec2Isabelle
  imports Main "HOL-Library.AList"
begin

section \<open>JavaScript values\<close>

text \<open>
  The values the store engine handles. Numbers are the integers plus \<open>NaN\<close> (fractions and
  infinities are outside the model); a \<open>Date\<close> carries its time value, \<open>None\<close> being the
  invalid date. An object is the list of its own enumerable properties, each key occurring
  once, in the order of insertion (keys that are array indices are enumerated by index
  instead; the properties proved below are about what is read under a key, not about that
  order); its prototype is \<open>Object.prototype\<close>. Functions and symbols are not values:
  data, queries and stored records hold none, so a property that shadows a built-in
  method holds something that cannot be called.
\<close>

datatype jsval =
    JUndefined
  | JNull
  | JBool bool
  | JNum int
  | JNaN
  | JStr string
  | JDate "int option"
  | JArr "jsval list"
  | JObj "(string \<times> jsval) list"

type_synonym obj = "(string \<times> jsval) list"

text \<open>
  The members of \<open>Object.prototype\<close>. Reading one of these names on an object that has no
  property of its own by that name answers the built-in member: a function, or for
  \<open>__proto__\<close> the prototype itself.
\<close>

definition object_prototype_names :: "string list" where
  "object_prototype_names =
     [''constructor'', ''hasOwnProperty'', ''isPrototypeOf'', ''propertyIsEnumerable'',
      ''toLocaleString'', ''toString'', ''valueOf'', ''__proto__'', ''__defineGetter__'',
      ''__defineSetter__'', ''__lookupGetter__'', ''__lookupSetter__'']"

text \<open>What reading a property answers: a value, or the built-in member of that name.\<close>

datatype property = Own jsval | Inherited string

text \<open>
  What the host leaves to the implementation: \<open>Date.parse\<close> (\<open>None\<close> for \<open>NaN\<close>), the
  string form of a date, the numeric value of a string (\<open>None\<close> for \<open>NaN\<close>), the string
  form of a number of magnitude \<open>10^21\<close> or more, the string form of a built-in function,
  and the order \<open>Array.prototype.sort\<close> gives with a comparator.
\<close>

record runtime =
  date_parse :: "string \<Rightarrow> int option"
  date_string :: "int option \<Rightarrow> string"
  string_number :: "string \<Rightarrow> int option"
  number_string :: "int \<Rightarrow> string"
  function_string :: "string \<Rightarrow> string"
  array_sort :: "(obj \<Rightarrow> obj \<Rightarrow> int option) \<Rightarrow> obj list \<Rightarrow> obj list"

datatype verr =
    Required string
  | MustBeUnique string
  | MustBeOfType string
  | ValidationFailedFor string
  | ValidationError string string

text \<open>
  How a call fails. \<open>Unsettled\<close> is not an error the program sees: it stands for a promise
  that is neither resolved nor rejected, as when a handler of a request throws and
  nothing calls \<open>reject\<close>.
\<close>

datatype error =
    TypeError
  | DataError
  | ConstraintError
  | ItemNotFound
  | PrimaryKeyRequired
  | ValidationFailed "verr list"
  | FetchFailed
  | Unsettled

fun truthy :: "jsval \<Rightarrow> bool" where
  "truthy JUndefined = False"
| "truthy JNull = False"
| "truthy (JBool b) = b"
| "truthy (JNum n) = (n \<noteq> 0)"
| "truthy JNaN = False"
| "truthy (JStr s) = (s \<noteq> [])"
| "truthy (JDate t) = True"
| "truthy (JArr xs) = True"
| "truthy (JObj ps) = True"

text \<open>\<open>typeof v === "object"\<close>: true of \<open>null\<close> as well.\<close>

fun typeof_object :: "jsval \<Rightarrow> bool" where
  "typeof_object JNull = True"
| "typeof_object (JDate t) = True"
| "typeof_object (JArr xs) = True"
| "typeof_object (JObj ps) = True"
| "typeof_object v = False"

fun is_primitive :: "jsval \<Rightarrow> bool" where
  "is_primitive (JDate t) = False"
| "is_primitive (JArr xs) = False"
| "is_primitive (JObj ps) = False"
| "is_primitive v = True"

text \<open>
  \<open>a === b\<close> and the \<open>SameValueZero\<close> of \<open>Array.prototype.includes\<close>. Two objects are equal
  only when they are the same object; a value read from a stored record and a value of a
  query or of new data never are, so the comparison of two objects is \<open>False\<close> throughout.
\<close>

definition strict_eq :: "jsval \<Rightarrow> jsval \<Rightarrow> bool" where
  "strict_eq a b \<longleftrightarrow> is_primitive a \<and> a = b \<and> a \<noteq> JNaN"

definition same_value_zero :: "jsval \<Rightarrow> jsval \<Rightarrow> bool" where
  "same_value_zero a b \<longleftrightarrow> is_primitive a \<and> a = b"

subsection \<open>Conversion to string and to number\<close>

text \<open>
  Converting an object to a primitive calls its \<open>toString\<close>. An own property of that name
  is not callable, and the conversion then throws a \<open>TypeError\<close>; an array converts its
  elements in turn.
\<close>

fun convertible :: "jsval \<Rightarrow> bool" where
  "convertible (JObj ps) = (map_of ps ''toString'' = None)"
| "convertible (JArr xs) = list_all convertible xs"
| "convertible v = True"

definition digit_char :: "nat \<Rightarrow> char" where
  "digit_char d = char_of (48 + d)"

fun show_nat :: "nat \<Rightarrow> string" where
  "show_nat n = (if n < 10 then [digit_char n] else show_nat (n div 10) @ [digit_char (n mod 10)])"

declare show_nat.simps [simp del]

definition show_int :: "int \<Rightarrow> string" where
  "show_int i = (if i < 0 then CHR ''-'' # show_nat (nat (- i)) else show_nat (nat i))"

fun join_comma :: "string list \<Rightarrow> string" where
  "join_comma [] = []"
| "join_comma [s] = s"
| "join_comma (s # t # ss) = s @ '','' @ join_comma (t # ss)"

text \<open>
  \<open>String(v)\<close> for a convertible value; an array joins its elements, \<open>null\<close> and \<open>undefined\<close>
  elements as empty.
\<close>

fun js_String :: "runtime \<Rightarrow> jsval \<Rightarrow> string" where
  "js_String rt JUndefined = ''undefined''"
| "js_String rt JNull = ''null''"
| "js_String rt (JBool b) = (if b then ''true'' else ''false'')"
| "js_String rt (JNum n) =
     (if \<bar>n\<bar> < 1000000000000000000000 then show_int n else number_string rt n)"
| "js_String rt JNaN = ''NaN''"
| "js_String rt (JStr s) = s"
| "js_String rt (JDate t) = date_string rt t"
| "js_String rt (JArr xs) =
     join_comma (map (\<lambda>x. if x = JUndefined \<or> x = JNull then [] else js_String rt x) xs)"
| "js_String rt (JObj ps) = ''[object Object]''"

text \<open>The string form of the built-in member of a name.\<close>

definition member_string :: "runtime \<Rightarrow> string \<Rightarrow> string" where
  "member_string rt k = (if k = ''__proto__'' then ''[object Object]'' else function_string rt k)"

text \<open>
  \<open>ToPrimitive\<close> with hint number, for a convertible value: a date gives its time value,
  other objects their string.
\<close>

definition num_val :: "int option \<Rightarrow> jsval" where
  "num_val t = (case t of None \<Rightarrow> JNaN | Some n \<Rightarrow> JNum n)"

fun to_primitive :: "runtime \<Rightarrow> jsval \<Rightarrow> jsval" where
  "to_primitive rt (JDate t) = num_val t"
| "to_primitive rt (JArr xs) = JStr (js_String rt (JArr xs))"
| "to_primitive rt (JObj ps) = JStr (js_String rt (JObj ps))"
| "to_primitive rt v = v"

text \<open>\<open>Number(v)\<close>, \<open>None\<close> for \<open>NaN\<close>.\<close>

fun prim_number :: "runtime \<Rightarrow> jsval \<Rightarrow> int option" where
  "prim_number rt JNull = Some 0"
| "prim_number rt (JBool b) = Some (if b then 1 else 0)"
| "prim_number rt (JNum n) = Some n"
| "prim_number rt (JStr s) = string_number rt s"
| "prim_number rt v = None"

definition to_number :: "runtime \<Rightarrow> jsval \<Rightarrow> int option" where
  "to_number rt v = prim_number rt (to_primitive rt v)"

fun str_lt :: "string \<Rightarrow> string \<Rightarrow> bool" where
  "str_lt [] [] = False"
| "str_lt [] (d # ds) = True"
| "str_lt (c # cs) [] = False"
| "str_lt (c # cs) (d # ds) =
     ((of_char c :: nat) < of_char d \<or> (c = d \<and> str_lt cs ds))"

text \<open>
  The abstract relational comparison \<open>a < b\<close> of two convertible values: \<open>None\<close> when an
  operand is \<open>NaN\<close>. Then \<open>a > b\<close> is \<open>js_less rt b a = Some True\<close>, \<open>a <= b\<close> is
  \<open>js_less rt b a = Some False\<close> and \<open>a >= b\<close> is \<open>js_less rt a b = Some False\<close>.
\<close>

definition js_less :: "runtime \<Rightarrow> jsval \<Rightarrow> jsval \<Rightarrow> bool option" where
  "js_less rt a b =
     (case (to_primitive rt a, to_primitive rt b) of
        (JStr s, JStr t) \<Rightarrow> Some (str_lt s t)
      | (pa, pb) \<Rightarrow>
          (case (prim_number rt pa, prim_number rt pb) of
             (Some x, Some y) \<Rightarrow> Some (x < y)
           | _ \<Rightarrow> None))"

subsection \<open>Properties\<close>

text \<open>
  The own enumerable properties of a value seen as an object (\<open>Object.entries\<close>): those of
  an object, the indexed elements of an array, the indexed characters of a string.
\<close>

fun own_entries :: "jsval \<Rightarrow> obj" where
  "own_entries (JObj ps) = ps"
| "own_entries (JArr xs) = zip (map show_nat [0..<length xs]) xs"
| "own_entries (JStr s) = zip (map show_nat [0..<length s]) (map (\<lambda>c. JStr [c]) s)"
| "own_entries v = []"

fun own_length :: "jsval \<Rightarrow> nat option" where
  "own_length (JArr xs) = Some (length xs)"
| "own_length (JStr s) = Some (length s)"
| "own_length v = None"

text \<open>
  The own property of an object under a name, \<open>undefined\<close> when it has none. This is
  what \<open>o[k]\<close> reads unless the object has no such property and \<open>k\<close> names a member of
  a built-in prototype. The names the program is configured with (the primary field, the
  declared fields, the fields of the synchronisation and of a sort) are taken not to be
  such names, and \<open>o[k]\<close> under them is \<open>obj_get\<close>; names that come with the data,
  with a query or with a projection are arbitrary and are read with \<open>obj_property\<close>
  below.
\<close>

definition obj_get :: "obj \<Rightarrow> string \<Rightarrow> jsval" where
  "obj_get ps k = (case map_of ps k of None \<Rightarrow> JUndefined | Some v \<Rightarrow> v)"

text \<open>
  The same for any value other than \<open>null\<close> and \<open>undefined\<close>: an array and a string
  have their elements and their \<open>length\<close>.
\<close>

definition own_get :: "jsval \<Rightarrow> string \<Rightarrow> jsval" where
  "own_get v k =
     (case map_of (own_entries v) k of
        Some x \<Rightarrow> x
      | None \<Rightarrow>
          (case own_length v of
             Some n \<Rightarrow> if k = ''length'' then JNum (int n) else JUndefined
           | None \<Rightarrow> JUndefined))"

text \<open>\<open>v[k]\<close>: reading a property of \<open>null\<close> or \<open>undefined\<close> throws.\<close>

definition js_get :: "jsval \<Rightarrow> string \<Rightarrow> error + jsval" where
  "js_get v k = (if v = JUndefined \<or> v = JNull then Inl TypeError else Inr (own_get v k))"

definition has_own :: "jsval \<Rightarrow> string \<Rightarrow> bool" where
  "has_own v k \<longleftrightarrow>
     k \<in> fst ` set (own_entries v) \<or> (k = ''length'' \<and> own_length v \<noteq> None)"

text \<open>\<open>item[key]\<close> on a record, under any name.\<close>

definition obj_property :: "obj \<Rightarrow> string \<Rightarrow> property" where
  "obj_property ps k =
     (case map_of ps k of
        Some v \<Rightarrow> Own v
      | None \<Rightarrow> if k \<in> set object_prototype_names then Inherited k else Own JUndefined)"

text \<open>
  \<open>o[k] = v\<close> on an object, for a name other than \<open>__proto__\<close> (under which the assignment
  sets the prototype and adds no property).
\<close>

definition obj_set :: "obj \<Rightarrow> string \<Rightarrow> jsval \<Rightarrow> obj" where
  "obj_set ps k v = AList.update k v ps"

text \<open>
  An object whose prototype has been replaced: \<open>None\<close> is \<open>Object.prototype\<close>, \<open>Some p\<close> the
  value \<open>p\<close> installed by an assignment to \<open>__proto__\<close>, \<open>null\<close> or an object. A property
  the object does not have is then read from \<open>p\<close>.
\<close>

definition chain_get :: "jsval option \<Rightarrow> jsval \<Rightarrow> string \<Rightarrow> jsval" where
  "chain_get proto v k =
     (if has_own v k then own_get v k
      else (case proto of
              None \<Rightarrow> JUndefined
            | Some p \<Rightarrow> if p = JNull then JUndefined else own_get p k))"

text \<open>
  Whether \<open>data.hasOwnProperty\<close> is the built-in method: not when the data, or the object
  installed as its prototype, has a property of that name, and not below \<open>null\<close>.
\<close>

definition has_method :: "jsval option \<Rightarrow> jsval \<Rightarrow> bool" where
  "has_method proto data \<longleftrightarrow>
     (case data of
        JUndefined \<Rightarrow> False
      | JNull \<Rightarrow> False
      | JObj ps \<Rightarrow>
          map_of ps ''hasOwnProperty'' = None \<and>
          (case proto of
             None \<Rightarrow> True
           | Some (JObj qs) \<Rightarrow> map_of qs ''hasOwnProperty'' = None
           | Some JNull \<Rightarrow> False
           | Some p \<Rightarrow> True)
      | _ \<Rightarrow> True)"

section \<open>Schema\<close>

datatype jstype = TString | TNumber | TBoolean | TDate | TArray | TObject | TCustom string

text \<open>
  A field is declared by an options object \<open>{type, required, unique, validate}\<close> or by a
  bare constructor (as in \<open>_lastSync: Date\<close>). A validator answers truthy or falsy, or
  throws with a message.
\<close>

record fieldopts =
  ftype :: "jstype option"
  required :: bool
  unique :: bool
  validate :: "(jsval \<Rightarrow> string + bool) option"

datatype fielddef = Bare jstype | Def fieldopts

record schema =
  definition_of :: "(string \<times> fielddef) list"
  indexes :: "(string \<times> bool) list"


definition removeIndex :: "schema \<Rightarrow> string \<Rightarrow> schema" where
  "removeIndex s field = s\<lparr>indexes := filter (\<lambda>index. fst index \<noteq> field) (indexes s)\<rparr>"

text \<open>
  \<open>toDocument\<close> and \<open>toObject\<close> copy the data and walk the declared fields in order.
\<close>

definition toDocument :: "schema \<Rightarrow> obj \<Rightarrow> obj" where
  "toDocument s data =
     foldl (\<lambda>document field.
              if obj_get document field = JUndefined then obj_set document field JNull
              else document)
       data (map fst (definition_of s))"

definition toObject :: "schema \<Rightarrow> obj \<Rightarrow> obj" where
  "toObject s document =
     foldl (\<lambda>object field.
              if obj_get object field = JNull then obj_set object field JUndefined
              else object)
       document (map fst (definition_of s))"

section \<open>The object store\<close>

text \<open>
  The object store of the active collection as \<open>connect\<close> creates it: its key path is the
  model's primary field and it has one index per entry of the schema's index list. The
  records are kept in key order, the order in which a cursor visits them. Key paths are
  single property names, and a key path is evaluated on the own properties of a record.
\<close>

fun valid_key :: "jsval \<Rightarrow> bool" where
  "valid_key (JNum n) = True"
| "valid_key (JStr s) = True"
| "valid_key (JDate t) = (t \<noteq> None)"
| "valid_key (JArr xs) = list_all valid_key xs"
| "valid_key v = False"

fun key_rank :: "jsval \<Rightarrow> nat" where
  "key_rank (JNum n) = 0"
| "key_rank (JDate t) = 1"
| "key_rank (JStr s) = 2"
| "key_rank v = 3"

fun key_lt :: "jsval \<Rightarrow> jsval \<Rightarrow> bool" where
  "key_lt (JNum a) (JNum b) = (a < b)"
| "key_lt (JDate (Some a)) (JDate (Some b)) = (a < b)"
| "key_lt (JStr a) (JStr b) = str_lt a b"
| "key_lt (JArr []) (JArr []) = False"
| "key_lt (JArr []) (JArr (y # ys)) = True"
| "key_lt (JArr (x # xs)) (JArr []) = False"
| "key_lt (JArr (x # xs)) (JArr (y # ys)) =
     (key_lt x y \<or> (x = y \<and> key_lt (JArr xs) (JArr ys)))"
| "key_lt a b = (key_rank a < key_rank b)"

fun insert_record :: "string \<Rightarrow> obj \<Rightarrow> obj list \<Rightarrow> obj list" where
  "insert_record kp r [] = [r]"
| "insert_record kp r (x # xs) =
     (if key_lt (obj_get r kp) (obj_get x kp) then r # x # xs else x # insert_record kp r xs)"

section \<open>Model\<close>

record options =
  opt_version :: "nat option"
  opt_primary :: "string option"
  opt_collections :: "string list option"
  opt_active :: "string option"

text \<open>
  \<open>tagged\<close> lists the constructors on which the model's constructor has set the property
  \<open>type\<close> to \<open>String\<close> (none carries such a property beforehand).
\<close>

record model =
  name :: string
  schema :: schema
  version :: nat
  primary :: string
  collections :: "string list"
  activeCollection :: string
  tagged :: "jstype list"

definition primary_warning :: "string \<Rightarrow> string" where
  "primary_warning p = ''We convert the '' @ p @
     '' key to a string for better compatibility with non-relational databases''"

text \<open>
  The constructor, returning the model and what it wrote with \<open>console.warn\<close>. For a
  primary field declared by a bare constructor the test of the second branch reads the
  property \<open>type\<close> of the constructor function and its assignment lands there: the entry
  stays as it is and the constructor is tagged.
\<close>

definition Model_constructor :: "string \<Rightarrow> schema \<Rightarrow> options \<Rightarrow> model \<times> string list" where
  "Model_constructor nm s opts =
     (let ver = (case opt_version opts of None \<Rightarrow> 1 | Some v \<Rightarrow> if v = 0 then 1 else v);
          prim = (case opt_primary opts of None \<Rightarrow> ''_id'' | Some p \<Rightarrow> if p = [] then ''_id'' else p);
          colls = (case opt_collections opts of None \<Rightarrow> [] | Some cs \<Rightarrow> cs);
          (defn, warns) =
            (case map_of (definition_of s) prim of
               None \<Rightarrow>
                 (AList.update prim
                    (Def \<lparr>ftype = Some TString, required = False, unique = True, validate = None\<rparr>)
                    (definition_of s), [])
             | Some (Bare t) \<Rightarrow> (definition_of s, [primary_warning prim])
             | Some (Def d) \<Rightarrow>
                 if ftype d \<noteq> Some TString then
                   (AList.update prim (Def (d\<lparr>ftype := Some TString\<rparr>)) (definition_of s),
                    [primary_warning prim])
                 else if \<not> unique d then
                   (AList.update prim (Def (d\<lparr>unique := True\<rparr>)) (definition_of s), [])
                 else (definition_of s, []));
          active = (case opt_active opts of None \<Rightarrow> nm | Some a \<Rightarrow> if a = [] then nm else a)
      in (\<lparr>name = nm, schema = s\<lparr>definition_of := defn\<rparr>, version = ver, primary = prim,
            collections = colls, activeCollection = active,
            tagged = (case map_of (definition_of s) prim of Some (Bare t) \<Rightarrow> [t] | _ \<Rightarrow> [])\<rparr>,
          warns))"

subsection \<open>Reading a field declaration\<close>

text \<open>
  \<open>definition.type\<close>, \<open>definition.required\<close>, \<open>definition.unique\<close>, \<open>definition.validate\<close>. A
  bare constructor has the \<open>type\<close> the model's constructor may have set on it and none of
  the others.
\<close>

fun def_type :: "jstype list \<Rightarrow> fielddef \<Rightarrow> jstype option" where
  "def_type tg (Bare t) = (if t \<in> set tg then Some TString else None)"
| "def_type tg (Def d) = ftype d"

fun def_required :: "fielddef \<Rightarrow> bool" where
  "def_required (Bare t) = False"
| "def_required (Def d) = required d"

fun def_unique :: "fielddef \<Rightarrow> bool" where
  "def_unique (Bare t) = False"
| "def_unique (Def d) = unique d"

fun def_validate :: "fielddef \<Rightarrow> (jsval \<Rightarrow> string + bool) option" where
  "def_validate (Bare t) = None"
| "def_validate (Def d) = validate d"

text \<open>\<open>definition.type || definition\<close>: \<open>None\<close> when the result is the options object itself.\<close>

fun def_type_or_self :: "jstype list \<Rightarrow> fielddef \<Rightarrow> jstype option" where
  "def_type_or_self tg (Bare t) = Some (if t \<in> set tg then TString else t)"
| "def_type_or_self tg (Def d) = ftype d"

subsection \<open>Casting\<close>

fun isValidType :: "jsval \<Rightarrow> jstype \<Rightarrow> bool" where
  "isValidType v TString = (case v of JStr s \<Rightarrow> True | _ \<Rightarrow> False)"
| "isValidType v TNumber = (case v of JNum n \<Rightarrow> True | _ \<Rightarrow> False)"
| "isValidType v TBoolean = (case v of JBool b \<Rightarrow> True | _ \<Rightarrow> False)"
| "isValidType v TDate = (case v of JDate t \<Rightarrow> t \<noteq> None | _ \<Rightarrow> False)"
| "isValidType v TArray = (case v of JArr xs \<Rightarrow> True | _ \<Rightarrow> False)"
| "isValidType v TObject = (typeof_object v \<and> v \<noteq> JNull)"
| "isValidType v (TCustom c) = False"

definition date_warning :: "runtime \<Rightarrow> jsval \<Rightarrow> string" where
  "date_warning rt v = ''Invalid date value: '' @ js_String rt v"

text \<open>
  \<open>_castValue\<close>: the value and the warnings written. A conversion that throws is caught
  and the value is \<open>null\<close>; for a date this happens while the warning is being written,
  which then is not.
\<close>

fun castValue :: "runtime \<Rightarrow> jsval \<Rightarrow> jstype option \<Rightarrow> jsval \<times> string list" where
  "castValue rt v (Some TString) = (if convertible v then JStr (js_String rt v) else JNull, [])"
| "castValue rt v (Some TNumber) = (if convertible v then num_val (to_number rt v) else JNull, [])"
| "castValue rt v (Some TBoolean) = (JBool (truthy v), [])"
| "castValue rt v (Some TDate) =
     (let converted =
            (case v of
               JDate t \<Rightarrow> JDate t
             | JStr s \<Rightarrow> if date_parse rt s \<noteq> None then JDate (date_parse rt s) else JNull
             | _ \<Rightarrow> JNull)
      in if \<not> truthy converted \<or> converted = JDate None then
           (JNull, if convertible v then [date_warning rt v] else [])
         else (converted, []))"
| "castValue rt v t = (v, [])"

text \<open>
  What \<open>_prepare\<close> assigns under a key of the data: the value cast to the type of
  \<open>this.schema.definition[key]\<close>, or nothing when that is falsy. The definition is an
  object, so a key that it does not declare and that names a member of \<open>Object.prototype\<close>
  reads as that member, which is truthy and has no \<open>type\<close>.
\<close>

definition cast_entry :: "runtime \<Rightarrow> model \<Rightarrow> string \<Rightarrow> jsval \<Rightarrow> (jsval \<times> string list) option" where
  "cast_entry rt m key v =
     (case map_of (definition_of (schema m)) key of
        Some d \<Rightarrow> Some (castValue rt v (def_type (tagged m) d))
      | None \<Rightarrow> if key \<in> set object_prototype_names then Some (v, []) else None)"

text \<open>
  The properties of the object \<open>_prepare\<close> builds, and the warnings. The assignment under
  \<open>__proto__\<close> adds no property: it replaces the prototype of the object when the value is
  an object or \<open>null\<close>.
\<close>

fun prepare_entries :: "runtime \<Rightarrow> model \<Rightarrow> obj \<Rightarrow> obj \<times> string list" where
  "prepare_entries rt m [] = ([], [])"
| "prepare_entries rt m ((key, v) # rest) =
     (let (ps, ws) = prepare_entries rt m rest in
      case cast_entry rt m key v of
        None \<Rightarrow> (ps, ws)
      | Some (v', w) \<Rightarrow> (if key = ''__proto__'' then ps else (key, v') # ps, w @ ws))"

definition installed_proto :: "runtime \<Rightarrow> model \<Rightarrow> obj \<Rightarrow> jsval option" where
  "installed_proto rt m data =
     (case map_of data ''__proto__'' of
        None \<Rightarrow> None
      | Some v \<Rightarrow>
          (case cast_entry rt m ''__proto__'' v of
             None \<Rightarrow> None
           | Some (v', w) \<Rightarrow> if typeof_object v' then Some v' else None))"

text \<open>\<open>_prepare\<close>: \<open>Object.entries\<close> throws on \<open>null\<close> and \<open>undefined\<close>.\<close>

definition prepare :: "runtime \<Rightarrow> model \<Rightarrow> jsval \<Rightarrow> error + obj \<times> string list" where
  "prepare rt m data =
     (if data = JUndefined \<or> data = JNull then Inl TypeError
      else Inr (prepare_entries rt m (own_entries data)))"

subsection \<open>Queries\<close>

fun every :: "('a \<Rightarrow> error + bool) \<Rightarrow> 'a list \<Rightarrow> error + bool" where
  "every p [] = Inr True"
| "every p (x # xs) =
     (case p x of Inl e \<Rightarrow> Inl e | Inr b \<Rightarrow> if b then every p xs else Inr False)"

fun contains :: "string \<Rightarrow> string \<Rightarrow> bool" where
  "contains p [] = (p = [])"
| "contains p (c # cs) = (take (length p) (c # cs) = p \<or> contains p cs)"

text \<open>
  The operand of a comparison that stands for what was read: the value, or the string a
  built-in member converts to.
\<close>

definition comparand :: "runtime \<Rightarrow> property \<Rightarrow> jsval" where
  "comparand rt p = (case p of Own v \<Rightarrow> v | Inherited k \<Rightarrow> JStr (member_string rt k))"

text \<open>\<open>a < b\<close>, which throws when an operand does not convert.\<close>

definition less_than :: "runtime \<Rightarrow> jsval \<Rightarrow> jsval \<Rightarrow> error + bool option" where
  "less_than rt a b = (if convertible a \<and> convertible b then Inr (js_less rt a b) else Inl TypeError)"

text \<open>\<open>a === b\<close> and \<open>a !== b\<close> where \<open>a\<close> was read: a built-in member equals no value.\<close>

definition property_eq :: "property \<Rightarrow> jsval \<Rightarrow> bool" where
  "property_eq p b = (case p of Own v \<Rightarrow> strict_eq v b | Inherited k \<Rightarrow> False)"

text \<open>
  \<open>operand.includes(x)\<close>: membership in an array, a substring test on a string (of the
  string \<open>x\<close> converts to), and a \<open>TypeError\<close> on any other operand, which has no such
  method.
\<close>

definition js_includes :: "runtime \<Rightarrow> jsval \<Rightarrow> property \<Rightarrow> error + bool" where
  "js_includes rt operand p =
     (case operand of
        JArr xs \<Rightarrow>
          Inr (case p of Own v \<Rightarrow> list_ex (\<lambda>x. same_value_zero x v) xs | Inherited k \<Rightarrow> False)
      | JStr s \<Rightarrow>
          (if convertible (comparand rt p) then Inr (contains (js_String rt (comparand rt p)) s)
           else Inl TypeError)
      | _ \<Rightarrow> Inl TypeError)"

definition operator_holds :: "runtime \<Rightarrow> obj \<Rightarrow> string \<Rightarrow> string \<times> jsval \<Rightarrow> error + bool" where
  "operator_holds rt item key = (\<lambda>(operator, operand).
     if operator = ''$gt'' then
       (case less_than rt operand (comparand rt (obj_property item key)) of
          Inl e \<Rightarrow> Inl e | Inr r \<Rightarrow> Inr (r = Some True))
     else if operator = ''$gte'' then
       (case less_than rt (comparand rt (obj_property item key)) operand of
          Inl e \<Rightarrow> Inl e | Inr r \<Rightarrow> Inr (r = Some False))
     else if operator = ''$lt'' then
       (case less_than rt (comparand rt (obj_property item key)) operand of
          Inl e \<Rightarrow> Inl e | Inr r \<Rightarrow> Inr (r = Some True))
     else if operator = ''$lte'' then
       (case less_than rt operand (comparand rt (obj_property item key)) of
          Inl e \<Rightarrow> Inl e | Inr r \<Rightarrow> Inr (r = Some False))
     else if operator = ''$ne'' then Inr (\<not> property_eq (obj_property item key) operand)
     else if operator = ''$in'' then js_includes rt operand (obj_property item key)
     else if operator = ''$nin'' then
       (case js_includes rt operand (obj_property item key) of
          Inl e \<Rightarrow> Inl e | Inr b \<Rightarrow> Inr (\<not> b))
     else Inr False)"

definition clause_matches :: "runtime \<Rightarrow> obj \<Rightarrow> string \<times> jsval \<Rightarrow> error + bool" where
  "clause_matches rt item = (\<lambda>(key, v).
     if truthy v \<and> typeof_object v then every (operator_holds rt item key) (own_entries v)
     else Inr (property_eq (obj_property item key) v))"

definition matchesQuery :: "runtime \<Rightarrow> obj \<Rightarrow> jsval \<Rightarrow> error + bool" where
  "matchesQuery rt item query =
     (if query = JUndefined \<or> query = JNull then Inl TypeError
      else every (clause_matches rt item) (own_entries query))"

text \<open>
  The projection loop of \<open>find\<close>, \<open>for (i = 0; i < fields.length; i++)\<close>: the fields it
  visits. The comparison converts the length to a number.
\<close>

definition field_list :: "runtime \<Rightarrow> jsval \<Rightarrow> error + jsval list" where
  "field_list rt flds =
     (if \<not> convertible (own_get flds ''length'') then Inl TypeError
      else Inr (map (\<lambda>i. own_get flds (show_nat i))
                  [0..<(case to_number rt (own_get flds ''length'') of None \<Rightarrow> 0 | Some k \<Rightarrow> nat k)]))"

text \<open>
  The object the loop builds from a record. It calls \<open>hasOwnProperty\<close> on the record,
  which throws when the record has a property of that name, and converts each field to a
  property key.
\<close>

definition project :: "runtime \<Rightarrow> jsval \<Rightarrow> obj \<Rightarrow> error + obj" where
  "project rt flds v =
     (case field_list rt flds of
        Inl e \<Rightarrow> Inl e
      | Inr fs \<Rightarrow>
          if fs \<noteq> [] \<and> (map_of v ''hasOwnProperty'' \<noteq> None \<or> \<not> list_all convertible fs)
          then Inl TypeError
          else Inr (foldl (\<lambda>selectedFields field.
                             if js_String rt field \<in> fst ` set v \<and> js_String rt field \<noteq> ''__proto__''
                             then obj_set selectedFields (js_String rt field)
                                    (obj_get v (js_String rt field))
                             else selectedFields)
                      [] fs))"

text \<open>
  The cursor of \<open>find\<close> over the records. Its handler runs once per record; when it
  throws, nothing settles the promise of \<open>find\<close>.
\<close>

fun scan :: "runtime \<Rightarrow> jsval \<Rightarrow> jsval \<Rightarrow> obj list \<Rightarrow> error + obj list" where
  "scan rt query flds [] = Inr []"
| "scan rt query flds (v # rest) =
     (case (if truthy flds then project rt flds v else Inr v) of
        Inl e \<Rightarrow> Inl Unsettled
      | Inr valueToPush \<Rightarrow>
          (case (if \<not> truthy query then Inr True else matchesQuery rt v query) of
             Inl e \<Rightarrow> Inl Unsettled
           | Inr b \<Rightarrow>
               (case scan rt query flds rest of
                  Inl e \<Rightarrow> Inl e
                | Inr rs \<Rightarrow> Inr (if b then valueToPush # rs else rs))))"

text \<open>
  \<open>find({query = null, fields = null} = {})\<close>: the argument is destructured, a missing
  argument standing for \<open>{}\<close> and a missing property for \<open>null\<close>; \<open>null\<close> cannot be
  destructured.
\<close>

definition or_null :: "jsval \<Rightarrow> jsval" where
  "or_null v = (if v = JUndefined then JNull else v)"

definition find_Model :: "runtime \<Rightarrow> obj list \<Rightarrow> jsval \<Rightarrow> error + obj list" where
  "find_Model rt recs arg =
     (if arg = JNull then Inl TypeError
      else
        (let a = (if arg = JUndefined then JObj [] else arg)
         in scan rt (or_null (own_get a ''query'')) (or_null (own_get a ''fields'')) recs))"

subsection \<open>Requests on the object store\<close>

text \<open>
  \<open>store.get\<close>, \<open>store.add\<close>, \<open>store.put\<close> and \<open>store.delete\<close>. A key that is not valid is a
  \<open>DataError\<close>, thrown by the call; \<open>add\<close> refuses a key that is present, and \<open>add\<close> and
  \<open>put\<close> refuse a record whose value under a unique index is held by another record
  (\<open>ConstraintError\<close>, the error of the request).
\<close>

definition unique_index_fields :: "model \<Rightarrow> string list" where
  "unique_index_fields m = map fst (filter snd (indexes (schema m)))"

definition index_conflict :: "model \<Rightarrow> obj list \<Rightarrow> obj \<Rightarrow> bool" where
  "index_conflict m recs r \<longleftrightarrow>
     list_ex (\<lambda>r'. obj_get r' (primary m) \<noteq> obj_get r (primary m) \<and>
                list_ex (\<lambda>f. valid_key (obj_get r f) \<and> obj_get r' f = obj_get r f)
                  (unique_index_fields m))
       recs"

definition idb_get :: "model \<Rightarrow> obj list \<Rightarrow> jsval \<Rightarrow> error + obj option" where
  "idb_get m recs key =
     (if \<not> valid_key key then Inl DataError
      else Inr (List.find (\<lambda>r. obj_get r (primary m) = key) recs))"

definition idb_add :: "model \<Rightarrow> obj list \<Rightarrow> obj \<Rightarrow> error + obj list" where
  "idb_add m recs r =
     (if \<not> valid_key (obj_get r (primary m)) then Inl DataError
      else if list_ex (\<lambda>r'. obj_get r' (primary m) = obj_get r (primary m)) recs
        then Inl ConstraintError
      else if index_conflict m recs r then Inl ConstraintError
      else Inr (insert_record (primary m) r recs))"

definition idb_put :: "model \<Rightarrow> obj list \<Rightarrow> obj \<Rightarrow> error + obj list" where
  "idb_put m recs r =
     (if \<not> valid_key (obj_get r (primary m)) then Inl DataError
      else if index_conflict m recs r then Inl ConstraintError
      else if list_ex (\<lambda>r'. obj_get r' (primary m) = obj_get r (primary m)) recs
        then Inr (map (\<lambda>r'. if obj_get r' (primary m) = obj_get r (primary m) then r else r') recs)
      else Inr (insert_record (primary m) r recs))"


subsection \<open>Validation\<close>

datatype operation = Create | Update

text \<open>\<open>validatePrimaryKey\<close>; the warning it writes for a key not 24 long is not kept.\<close>

definition validatePrimaryKey :: "model \<Rightarrow> jsval option \<Rightarrow> jsval \<Rightarrow> string" where
  "validatePrimaryKey m proto data =
     (if \<not> truthy (chain_get proto data (primary m)) then ''e''
      else if own_get (chain_get proto data (primary m)) ''length'' \<noteq> JNum 24 then ''w''
      else ''s'')"

text \<open>
  One round of the loop over the declared fields: the messages it pushes. The round calls
  \<open>data.hasOwnProperty\<close>, first when the field is required and in any case for the check
  of the type.
\<close>

definition validate_field ::
  "runtime \<Rightarrow> jstype list \<Rightarrow> obj list \<Rightarrow> jsval option \<Rightarrow> jsval \<Rightarrow> operation \<Rightarrow> string \<times> fielddef
     \<Rightarrow> error + verr list" where
  "validate_field rt tg recs proto data operation = (\<lambda>(field, d).
     if def_required d \<and> \<not> has_method proto data then Inl TypeError
     else
     (case (if def_unique d \<and> operation \<noteq> Update then
              (case find_Model rt recs
                      (JObj [(''query'', JObj [(field, chain_get proto data field)])]) of
                 Inl e \<Rightarrow> Inl e
               | Inr existing \<Rightarrow> Inr (if existing \<noteq> [] then [MustBeUnique field] else []))
            else Inr []) of
        Inl e \<Rightarrow> Inl e
      | Inr unique_errors \<Rightarrow>
          if \<not> has_method proto data then Inl TypeError
          else
          (case (if has_own data field \<and> own_get data field \<noteq> JNull then
                   (case def_type_or_self tg d of
                      None \<Rightarrow> Inl TypeError
                    | Some t \<Rightarrow>
                        Inr (if \<not> isValidType (own_get data field) t then [MustBeOfType field]
                             else []))
                 else Inr []) of
             Inl e \<Rightarrow> Inl e
           | Inr type_errors \<Rightarrow>
               Inr ((if def_required d \<and> \<not> has_own data field then [Required field] else [])
                    @ unique_errors @ type_errors
                    @ (case def_validate d of
                         None \<Rightarrow> []
                       | Some f \<Rightarrow>
                           if has_own data field then
                             (case f (own_get data field) of
                                Inl msg \<Rightarrow> [ValidationError field msg]
                              | Inr isValid \<Rightarrow>
                                  if \<not> isValid then [ValidationFailedFor field] else [])
                           else [])))))"

fun validate_fields ::
  "runtime \<Rightarrow> jstype list \<Rightarrow> obj list \<Rightarrow> jsval option \<Rightarrow> jsval \<Rightarrow> operation
     \<Rightarrow> (string \<times> fielddef) list \<Rightarrow> error + verr list" where
  "validate_fields rt tg recs proto data operation [] = Inr []"
| "validate_fields rt tg recs proto data operation (fd # rest) =
     (case validate_field rt tg recs proto data operation fd of
        Inl e \<Rightarrow> Inl e
      | Inr es \<Rightarrow>
          (case validate_fields rt tg recs proto data operation rest of
             Inl e \<Rightarrow> Inl e
           | Inr es' \<Rightarrow> Inr (es @ es')))"

text \<open>
  \<open>_validateData\<close>: the data, with the generated primary key when it had none, or the
  failure. \<open>proto\<close> is the prototype installed on the data, if any, and \<open>new_id\<close> is what
  \<open>generateObjectId\<close> answers. The key is only ever assigned on the object \<open>create\<close>
  passes in.
\<close>

definition validateData ::
  "runtime \<Rightarrow> model \<Rightarrow> obj list \<Rightarrow> jsval option \<Rightarrow> jsval \<Rightarrow> operation \<Rightarrow> jsval \<Rightarrow> string
     \<Rightarrow> error + jsval" where
  "validateData rt m recs proto data operation id' new_id =
     (case (if operation = Create \<and> validatePrimaryKey m proto data = ''e'' then
              (case data of
                 JObj ps \<Rightarrow> Inr (JObj (obj_set ps (primary m) (JStr new_id)))
               | _ \<Rightarrow> Inl TypeError)
            else if operation = Update \<and> \<not> truthy id' then Inl PrimaryKeyRequired
            else Inr data) of
        Inl e \<Rightarrow> Inl e
      | Inr data' \<Rightarrow>
          (case validate_fields rt (tagged m) recs proto data' operation (definition_of (schema m)) of
             Inl e \<Rightarrow> Inl e
           | Inr errors \<Rightarrow> if errors \<noteq> [] then Inl (ValidationFailed errors) else Inr data'))"

subsection \<open>Create, update, delete\<close>

text \<open>
  \<open>_executeTransaction\<close> runs each operation on the object store of the active collection,
  which \<open>connect\<close> has created. Each operation answers its result and the records of the
  store after it, or how it fails, the store then being as before.
\<close>

definition create_Model ::
  "runtime \<Rightarrow> model \<Rightarrow> obj list \<Rightarrow> obj \<Rightarrow> bool \<Rightarrow> string \<Rightarrow> error + obj \<times> obj list" where
  "create_Model rt m recs data castToScheme new_id =
     (case validateData rt m recs
             (if castToScheme then installed_proto rt m data else None)
             (JObj (if castToScheme then fst (prepare_entries rt m data) else data))
             Create JUndefined new_id of
        Inl e \<Rightarrow> Inl e
      | Inr data' \<Rightarrow>
          (case idb_add m recs
                  (if \<not> castToScheme then fst (prepare_entries rt m (own_entries data'))
                   else own_entries data') of
             Inl e \<Rightarrow> Inl e
           | Inr recs' \<Rightarrow> Inr (own_entries data', recs')))"

text \<open>\<open>delete data[k]\<close>: removes the property of an object, throws on \<open>null\<close> and \<open>undefined\<close>.\<close>

definition js_delete :: "jsval \<Rightarrow> string \<Rightarrow> error + jsval" where
  "js_delete data k =
     (case data of
        JUndefined \<Rightarrow> Inl TypeError
      | JNull \<Rightarrow> Inl TypeError
      | JObj ps \<Rightarrow> Inr (JObj (filter (\<lambda>p. fst p \<noteq> k) ps))
      | _ \<Rightarrow> Inr data)"

text \<open>
  \<open>{...a, ...b}\<close> for two objects: the properties of \<open>a\<close> in their order, each with the
  value \<open>b\<close> gives it if any, then the properties only \<open>b\<close> has.
\<close>

definition spread :: "obj \<Rightarrow> obj \<Rightarrow> obj" where
  "spread a b =
     map (\<lambda>(k, v). (k, case map_of b k of None \<Rightarrow> v | Some w \<Rightarrow> w)) a
     @ filter (\<lambda>(k, v). k \<notin> fst ` set a) b"

text \<open>
  \<open>update\<close>. The record is written by the handler of the request that fetched it; a
  \<open>DataError\<close> thrown by \<open>store.put\<close> there leaves the promise unsettled.
\<close>

definition update_Model ::
  "runtime \<Rightarrow> model \<Rightarrow> obj list \<Rightarrow> jsval \<Rightarrow> jsval \<Rightarrow> error + obj \<times> obj list" where
  "update_Model rt m recs data id' =
     (case (if truthy id' then Inr id' else js_get data (primary m)) of
        Inl e \<Rightarrow> Inl e
      | Inr key \<Rightarrow>
          (case js_delete data (primary m) of
             Inl e \<Rightarrow> Inl e
           | Inr data' \<Rightarrow>
               (case validateData rt m recs None data' Update key [] of
                  Inl e \<Rightarrow> Inl e
                | Inr validated \<Rightarrow>
                    (case idb_get m recs key of
                       Inl e \<Rightarrow> Inl e
                     | Inr None \<Rightarrow> Inl ItemNotFound
                     | Inr (Some item) \<Rightarrow>
                         (case prepare rt m data' of
                            Inl e \<Rightarrow> Inl e
                          | Inr (prepared, warnings) \<Rightarrow>
                              (case idb_put m recs (spread item prepared) of
                                 Inl e \<Rightarrow> Inl (if e = DataError then Unsettled else e)
                               | Inr recs' \<Rightarrow> Inr (spread item prepared, recs')))))))"


subsection \<open>Sort and limit\<close>

text \<open>
  The time value of \<open>new Date(v)\<close> for a convertible value, clipped to the range of a date,
  and the subtraction of two numbers.
\<close>

definition time_clip :: "int option \<Rightarrow> int option" where
  "time_clip t =
     (case t of None \<Rightarrow> None | Some n \<Rightarrow> if \<bar>n\<bar> \<le> 8640000000000000 then Some n else None)"

definition new_Date :: "runtime \<Rightarrow> jsval \<Rightarrow> int option" where
  "new_Date rt v =
     (case v of
        JDate t \<Rightarrow> t
      | _ \<Rightarrow> (case to_primitive rt v of
                JStr s \<Rightarrow> date_parse rt s
              | p \<Rightarrow> time_clip (prim_number rt p)))"

definition js_minus :: "int option \<Rightarrow> int option \<Rightarrow> int option" where
  "js_minus a b = (case (a, b) of (Some x, Some y) \<Rightarrow> Some (x - y) | _ \<Rightarrow> None)"

text \<open>
  \<open>sort\<close>: the records in the order the host's \<open>Array.prototype.sort\<close> gives with the
  comparator, whose result is a number or \<open>NaN\<close> (\<open>None\<close>). With two records or more every
  record goes through the comparator, which throws when the value under the key does not
  convert.
\<close>

definition sort_Model ::
  "runtime \<Rightarrow> obj list \<Rightarrow> string \<Rightarrow> string \<Rightarrow> string \<Rightarrow> error + obj list" where
  "sort_Model rt flds keyField_name keyField_type order =
     (if 2 \<le> length flds \<and> \<not> list_all (\<lambda>a. convertible (obj_get a keyField_name)) flds
      then Inl TypeError
      else Inr (array_sort rt (\<lambda>a b.
        if order = ''asc'' then
          (if keyField_type = ''date'' then
             js_minus (new_Date rt (obj_get a keyField_name)) (new_Date rt (obj_get b keyField_name))
           else js_minus (to_number rt (obj_get a keyField_name)) (to_number rt (obj_get b keyField_name)))
        else
          (if keyField_type = ''date'' then
             js_minus (new_Date rt (obj_get b keyField_name)) (new_Date rt (obj_get a keyField_name))
           else js_minus (to_number rt (obj_get b keyField_name)) (to_number rt (obj_get a keyField_name))))
       flds))"

definition limit_Model :: "obj list \<Rightarrow> nat \<Rightarrow> obj list" where
  "limit_Model flds limit = take limit flds"

section \<open>SyncManager\<close>

text \<open>
  The options the synchronisation reads, the model it works on, and \<open>watching\<close>: how many
  times \<open>watchChanges\<close> has replaced the model's \<open>create\<close> and \<open>update\<close> by its wrappers.
  \<open>now\<close> is what \<open>new Date()\<close> reads during a call.
\<close>

record syncManager =
  sync_model :: model
  idField :: string
  syncStatusField :: string
  serverIdField :: string
  lastSyncField :: string
  conflictResolution :: string
  watching :: nat

record sync_options =
  opt_idField :: "string option"
  opt_syncStatus :: "string option"
  opt_serverId :: "string option"
  opt_lastSync :: "string option"
  opt_conflictResolution :: "string option"

text \<open>\<open>options.x || d\<close> for a string option: the default when missing or empty.\<close>

definition or_default :: "string option \<Rightarrow> string \<Rightarrow> string" where
  "or_default x d = (case x of None \<Rightarrow> d | Some s \<Rightarrow> if s = [] then d else s)"

definition SyncManager_constructor :: "model \<Rightarrow> sync_options \<Rightarrow> syncManager" where
  "SyncManager_constructor m opts =
     \<lparr>sync_model = m,
      idField = or_default (opt_idField opts) ''_id'',
      syncStatusField = or_default (opt_syncStatus opts) ''_syncStatus'',
      serverIdField = or_default (opt_serverId opts) ''_id'',
      lastSyncField = or_default (opt_lastSync opts) ''_lastSync'',
      conflictResolution = or_default (opt_conflictResolution opts) ''server-wins'',
      watching = 0\<rparr>"

text \<open>
  \<open>prepareSyncSchema\<close>: \<open>Object.assign\<close> of the synchronisation fields onto the definition.
  The \<open>default\<close> of a declaration is read nowhere in the model and is left out.
\<close>

definition syncFields :: "syncManager \<Rightarrow> (string \<times> fielddef) list" where
  "syncFields sm =
     [(syncStatusField sm,
         Def \<lparr>ftype = Some TString, required = False, unique = False, validate = None\<rparr>),
      (lastSyncField sm, Bare TDate),
      (''_syncErrors'', Bare TArray),
      (''_localUpdatedAt'', Bare TDate)]
     @ (if map_of (definition_of (schema (sync_model sm))) (serverIdField sm) = None then
          [(serverIdField sm,
              Def \<lparr>ftype = Some TString, required = False, unique = True, validate = None\<rparr>)]
        else [])"

definition prepareSyncSchema :: "syncManager \<Rightarrow> syncManager" where
  "prepareSyncSchema sm =
     sm\<lparr>sync_model := (sync_model sm)\<lparr>schema := (schema (sync_model sm))\<lparr>definition_of :=
       foldl (\<lambda>defn (k, d). AList.update k d defn)
         (definition_of (schema (sync_model sm))) (syncFields sm)\<rparr>\<rparr>\<rparr>"

definition watchChanges :: "syncManager \<Rightarrow> syncManager" where
  "watchChanges sm = sm\<lparr>watching := Suc (watching sm)\<rparr>"

text \<open>\<open>{...data, [syncStatusField]: "modified", _localUpdatedAt: new Date()}\<close>\<close>

definition syncData :: "syncManager \<Rightarrow> int \<Rightarrow> jsval \<Rightarrow> obj" where
  "syncData sm now data =
     obj_set (obj_set (own_entries data) (syncStatusField sm) (JStr ''modified''))
       ''_localUpdatedAt'' (JDate (Some now))"

text \<open>
  \<open>this.model.update(a, b)\<close> and \<open>this.model.create(data, options)\<close> as they stand after
  \<open>watching\<close> installations: each wrapper \<open>(id, data) => originalUpdate(id, syncData)\<close>
  passes its two arguments on in the order it got them, and each wrapper
  \<open>(data) => originalCreate(syncData)\<close> drops the options.
\<close>

fun wrapped_update ::
  "runtime \<Rightarrow> syncManager \<Rightarrow> int \<Rightarrow> nat \<Rightarrow> obj list \<Rightarrow> jsval \<Rightarrow> jsval \<Rightarrow> error + obj \<times> obj list" where
  "wrapped_update rt sm now 0 recs a b = update_Model rt (sync_model sm) recs a b"
| "wrapped_update rt sm now (Suc n) recs a b =
     wrapped_update rt sm now n recs a (JObj (syncData sm now b))"

fun wrapped_create ::
  "runtime \<Rightarrow> syncManager \<Rightarrow> int \<Rightarrow> nat \<Rightarrow> obj list \<Rightarrow> obj \<Rightarrow> bool \<Rightarrow> string \<Rightarrow> error + obj \<times> obj list" where
  "wrapped_create rt sm now 0 recs data castToScheme new_id =
     create_Model rt (sync_model sm) recs data castToScheme new_id"
| "wrapped_create rt sm now (Suc n) recs data castToScheme new_id =
     wrapped_create rt sm now n recs (syncData sm now (JObj data)) False new_id"

definition model_update ::
  "runtime \<Rightarrow> syncManager \<Rightarrow> int \<Rightarrow> obj list \<Rightarrow> jsval \<Rightarrow> jsval \<Rightarrow> error + obj \<times> obj list" where
  "model_update rt sm now recs a b = wrapped_update rt sm now (watching sm) recs a b"

definition model_create ::
  "runtime \<Rightarrow> syncManager \<Rightarrow> int \<Rightarrow> obj list \<Rightarrow> obj \<Rightarrow> bool \<Rightarrow> string \<Rightarrow> error + obj \<times> obj list" where
  "model_create rt sm now recs data castToScheme new_id =
     wrapped_create rt sm now (watching sm) recs data castToScheme new_id"

subsection \<open>Push\<close>

definition prepareForSync :: "syncManager \<Rightarrow> obj \<Rightarrow> obj" where
  "prepareForSync sm item =
     filter (\<lambda>p. fst p \<notin> {syncStatusField sm, serverIdField sm, lastSyncField sm,
                              ''_syncErrors'', ''_localUpdatedAt''}) item"

text \<open>The changes \<open>pushToServer\<close> sends: \<open>{id, data, localId}\<close> for every record found.\<close>

definition changeset :: "syncManager \<Rightarrow> obj list \<Rightarrow> obj list" where
  "changeset sm modifiedItems =
     map (\<lambda>item. [(''id'', obj_get item (serverIdField sm)),
                   (''data'', JObj (prepareForSync sm item)),
                   (''localId'', obj_get item (idField sm))]) modifiedItems"

text \<open>
  The loop over \<open>result.synchronized\<close>, each entry a pair \<open>(localId, serverId)\<close>: it stops at
  the first update that does not resolve, with the records the earlier updates have left.
\<close>

fun confirm_synced ::
  "runtime \<Rightarrow> syncManager \<Rightarrow> int \<Rightarrow> obj list \<Rightarrow> (jsval \<times> jsval) list
     \<Rightarrow> error option \<times> obj list" where
  "confirm_synced rt sm now recs [] = (None, recs)"
| "confirm_synced rt sm now recs ((localId, serverId) # rest) =
     (case model_update rt sm now recs localId
             (JObj (obj_set (obj_set [(syncStatusField sm, JStr ''synced'')]
                               (serverIdField sm) serverId)
                      (lastSyncField sm) (JDate (Some now)))) of
        Inl e \<Rightarrow> (Some e, recs)
      | Inr (updated, recs') \<Rightarrow> confirm_synced rt sm now recs' rest)"

text \<open>
  What \<open>pushToServer\<close> answers: \<open>{success: true, synchronized: n}\<close>, or
  \<open>{success: false, error}\<close> for an error it caught, or nothing at all when a promise it
  awaits is never settled.
\<close>

datatype sync_result = Synchronized nat | Failed error | NoAnswer

definition caught :: "error \<Rightarrow> sync_result" where
  "caught e = (if e = Unsettled then NoAnswer else Failed e)"

text \<open>
  \<open>pushToServer\<close>, given the answer of the server: \<open>None\<close> when the request or its parsing
  fails, else the acknowledged pairs. It answers together with the records of the store
  afterwards.
\<close>

definition pushToServer ::
  "runtime \<Rightarrow> syncManager \<Rightarrow> int \<Rightarrow> obj list \<Rightarrow> (jsval \<times> jsval) list option
     \<Rightarrow> sync_result \<times> obj list" where
  "pushToServer rt sm now recs response =
     (case find_Model rt recs (JObj [(syncStatusField sm, JStr ''modified'')]) of
        Inl e \<Rightarrow> (caught e, recs)
      | Inr modifiedItems \<Rightarrow>
          (case response of
             None \<Rightarrow> (Failed FetchFailed, recs)
           | Some synchronized \<Rightarrow>
               (case confirm_synced rt sm now recs synchronized of
                  (Some e, recs') \<Rightarrow> (caught e, recs')
                | (None, recs') \<Rightarrow> (Synchronized (length synchronized), recs'))))"

subsection \<open>Conflicts\<close>

text \<open>
  \<open>{...serverItem, [serverIdField]: serverItem[idField], [syncStatusField]: "synced",
  [lastSyncField]: new Date()}\<close>
\<close>

definition remote_values :: "syncManager \<Rightarrow> int \<Rightarrow> jsval \<Rightarrow> error + jsval" where
  "remote_values sm now serverItem =
     (case js_get serverItem (idField sm) of
        Inl e \<Rightarrow> Inl e
      | Inr sid \<Rightarrow>
          Inr (JObj (obj_set (obj_set (obj_set (own_entries serverItem) (serverIdField sm) sid)
                                (syncStatusField sm) (JStr ''synced''))
                       (lastSyncField sm) (JDate (Some now)))))"

text \<open>\<open>{...localItem, [syncStatusField]: "conflict", _serverVersion: serverItem}\<close>\<close>

definition conflict_values :: "syncManager \<Rightarrow> jsval \<Rightarrow> jsval \<Rightarrow> jsval" where
  "conflict_values sm localItem serverItem =
     JObj (obj_set (obj_set (own_entries localItem) (syncStatusField sm) (JStr ''conflict''))
             ''_serverVersion'' serverItem)"

text \<open>
  The callback of \<open>localItem.map\<close> for one element: what its promise settles to and the
  records after it.
\<close>

definition send_update ::
  "runtime \<Rightarrow> syncManager \<Rightarrow> int \<Rightarrow> obj list \<Rightarrow> error + jsval \<Rightarrow> error + jsval
     \<Rightarrow> (error + jsval) \<times> obj list" where
  "send_update rt sm now recs a b =
     (case a of
        Inl e \<Rightarrow> (Inl e, recs)
      | Inr a' \<Rightarrow>
          (case b of
             Inl e \<Rightarrow> (Inl e, recs)
           | Inr b' \<Rightarrow>
               (case model_update rt sm now recs a' b' of
                  Inl e \<Rightarrow> (Inl e, recs)
                | Inr (updated, recs') \<Rightarrow> (Inr (JObj updated), recs'))))"

definition resolve_item ::
  "runtime \<Rightarrow> syncManager \<Rightarrow> int \<Rightarrow> jsval \<Rightarrow> jsval \<Rightarrow> obj list \<Rightarrow> jsval
     \<Rightarrow> (error + jsval) \<times> obj list" where
  "resolve_item rt sm now localItem serverItem recs item =
     (if conflictResolution sm = ''server-wins'' then
        send_update rt sm now recs (js_get item (idField sm)) (remote_values sm now serverItem)
      else if conflictResolution sm = ''client-wins'' then
        (if \<not> strict_eq (own_get localItem (syncStatusField sm)) (JStr ''modified'') then
           send_update rt sm now recs (js_get localItem (idField sm))
             (remote_values sm now serverItem)
         else (Inr JUndefined, recs))
      else if conflictResolution sm = ''manual'' then
        send_update rt sm now recs (js_get localItem (idField sm))
          (Inr (conflict_values sm localItem serverItem))
      else (Inr JUndefined, recs))"

fun resolve_items ::
  "runtime \<Rightarrow> syncManager \<Rightarrow> int \<Rightarrow> jsval \<Rightarrow> jsval \<Rightarrow> obj list \<Rightarrow> jsval list
     \<Rightarrow> (error + jsval) list \<times> obj list" where
  "resolve_items rt sm now localItem serverItem recs [] = ([], recs)"
| "resolve_items rt sm now localItem serverItem recs (item # rest) =
     (let (r, recs') = resolve_item rt sm now localItem serverItem recs item;
          (rs, recs'') = resolve_items rt sm now localItem serverItem recs' rest
      in (r # rs, recs''))"

text \<open>
  \<open>handleConflict\<close>: \<open>localItem\<close> is what \<open>find\<close> answered, an array; any other value has no
  \<open>map\<close>. The callbacks are taken one after the other, in the order of the array.
\<close>

definition handleConflict ::
  "runtime \<Rightarrow> syncManager \<Rightarrow> int \<Rightarrow> obj list \<Rightarrow> jsval \<Rightarrow> jsval
     \<Rightarrow> error + (error + jsval) list \<times> obj list" where
  "handleConflict rt sm now recs localItem serverItem =
     (case localItem of
        JArr items \<Rightarrow> Inr (resolve_items rt sm now localItem serverItem recs items)
      | _ \<Rightarrow> Inl TypeError)"

subsection \<open>The last synchronisation\<close>

text \<open>
  \<open>getLastSyncTimestamp\<close>: a rejection of \<open>find\<close> or of \<open>sort\<close> is caught and logged, after
  which reading \<open>length\<close> of \<open>undefined\<close> throws.
\<close>

definition getLastSyncTimestamp :: "runtime \<Rightarrow> syncManager \<Rightarrow> obj list \<Rightarrow> error + jsval" where
  "getLastSyncTimestamp rt sm recs =
     (case find_Model rt recs (JObj [(syncStatusField sm, JStr ''synced'')]) of
        Inl e \<Rightarrow> Inl (if e = Unsettled then Unsettled else TypeError)
      | Inr found \<Rightarrow>
          (case sort_Model rt found (lastSyncField sm) ''date'' ''desc'' of
             Inl e \<Rightarrow> Inl TypeError
           | Inr ordered \<Rightarrow>
               (case limit_Model ordered 1 of
                  [] \<Rightarrow> Inr JNull
                | item # rest \<Rightarrow> Inr (obj_get item (lastSyncField sm)))))"

section \<open>Example data\<close>

text \<open>The schema of the model tests: \<open>name\<close> and \<open>age\<close>, both required.\<close>

definition userSchema :: schema where
  "userSchema = \<lparr>definition_of =
      [(''name'', Def \<lparr>ftype = Some TString, required = True, unique = False, validate = None\<rparr>),
       (''age'', Def \<lparr>ftype = Some TNumber, required = True, unique = False, validate = None\<rparr>)],
     indexes = []\<rparr>"

text \<open>
  A stable sort by insertion, an element moving behind another only when the comparator
  is positive on the pair.
\<close>

fun insert_sorted :: "('a \<Rightarrow> 'a \<Rightarrow> int option) \<Rightarrow> 'a \<Rightarrow> 'a list \<Rightarrow> 'a list" where
  "insert_sorted cmp x [] = [x]"
| "insert_sorted cmp x (y # ys) =
     (if (case cmp x y of None \<Rightarrow> False | Some c \<Rightarrow> 0 < c) then y # insert_sorted cmp x ys
      else x # y # ys)"

definition js_sort :: "('a \<Rightarrow> 'a \<Rightarrow> int option) \<Rightarrow> 'a list \<Rightarrow> 'a list" where
  "js_sort cmp xs = foldr (insert_sorted cmp) xs []"

text \<open>
  A host for the examples: it parses the epoch's ISO string and no other, prints the
  invalid date as every host does, prints a built-in function by its name, and sorts by
  insertion. No example converts a string to a number or prints a large number.
\<close>

definition test_runtime :: runtime where
  "test_runtime = \<lparr>date_parse = (\<lambda>s. if s = ''1970-01-01T00:00:00.000Z'' then Some 0 else None),
     date_string = (\<lambda>t. case t of None \<Rightarrow> ''Invalid Date'' | Some n \<Rightarrow> ''Date '' @ show_int n),
     string_number = (\<lambda>s. None),
     number_string = show_int,
     function_string = (\<lambda>k. ''function '' @ k @ ''() { [native code] }''),
     array_sort = js_sort\<rparr>"

definition no_options :: options where
  "no_options = \<lparr>opt_version = None, opt_primary = None, opt_collections = None, opt_active = None\<rparr>"

text \<open>\<open>new Model('users', userSchema)\<close> and two records.\<close>

definition userModel :: model where
  "userModel = fst (Model_constructor ''users'' userSchema no_options)"

definition john :: obj where
  "john = [(''_id'', JStr ''a1''), (''name'', JStr ''John Doe''), (''age'', JNum 30)]"

text \<open>A schema with a unique field, as in the documentation, and one with a unique list.\<close>

definition accountSchema :: schema where
  "accountSchema = \<lparr>definition_of =
      [(''name'', Def \<lparr>ftype = Some TString, required = True, unique = False, validate = None\<rparr>),
       (''email'', Def \<lparr>ftype = Some TString, required = True, unique = True, validate = None\<rparr>)],
     indexes = []\<rparr>"

definition accountModel :: model where
  "accountModel = fst (Model_constructor ''accounts'' accountSchema no_options)"


definition ann :: obj where
  "ann = [(''_id'', JStr ''id1''), (''name'', JStr ''Ann''), (''email'', JStr ''ann@example.com'')]"

definition bob :: obj where
  "bob = [(''_id'', JStr ''id2''), (''name'', JStr ''Bob''), (''email'', JStr ''bob@example.com'')]"

definition tagModel :: model where
  "tagModel = fst (Model_constructor ''tagged''
     \<lparr>definition_of =
        [(''tags'', Def \<lparr>ftype = Some TArray, required = True, unique = True, validate = None\<rparr>)],
      indexes = []\<rparr> no_options)"

text \<open>
  The set-up of the synchronisation tests: the schema, the model, a manager with the
  synchronisation fields installed, a record edited locally after an earlier
  synchronisation, and a record that is synchronised.
\<close>

definition syncTestModel :: model where
  "syncTestModel = fst (Model_constructor ''testdb''
     \<lparr>definition_of =
        [(''_id'', Def \<lparr>ftype = Some TString, required = False, unique = True, validate = None\<rparr>),
         (''name'', Def \<lparr>ftype = Some TString, required = True, unique = False, validate = None\<rparr>),
         (''age'', Def \<lparr>ftype = Some TNumber, required = False, unique = False, validate = None\<rparr>),
         (''updatedAt'', Def \<lparr>ftype = Some TDate, required = False, unique = False, validate = None\<rparr>)],
      indexes = []\<rparr> no_options)"

definition testSync :: "string \<Rightarrow> syncManager" where
  "testSync policy = prepareSyncSchema (SyncManager_constructor syncTestModel
     \<lparr>opt_idField = Some ''_id'', opt_syncStatus = None, opt_serverId = None, opt_lastSync = None,
      opt_conflictResolution = Some policy\<rparr>)"

definition alice :: obj where
  "alice = [(''_id'', JStr ''id1''), (''name'', JStr ''Alice''), (''age'', JNum 28),
     (''_syncStatus'', JStr ''modified''), (''_lastSync'', JDate (Some 1000))]"

definition dana :: obj where
  "dana = [(''_id'', JStr ''id2''), (''name'', JStr ''Dana''), (''age'', JNum 40),
     (''_syncStatus'', JStr ''synced''), (''_lastSync'', JDate (Some 500))]"

definition charlie :: obj where
  "charlie = [(''_id'', JStr ''3''), (''name'', JStr ''Charlie''), (''age'', JNum 35),
     (''role'', JStr ''user'')]"

section \<open>Notions of the specification\<close>

subsection \<open>Clauses of a query\<close>

text \<open>
  A clause of a query pairs a field with a value. A value that is not an object is a
  literal, matched by exact equality; an object lists operators, every one of which has
  to hold of the stored field.
\<close>

definition clause_holds :: "runtime \<Rightarrow> obj \<Rightarrow> string \<Rightarrow> jsval \<Rightarrow> bool" where
  "clause_holds rt item key v \<longleftrightarrow>
     (if is_primitive v then property_eq (obj_property item key) v
      else (\<forall>entry \<in> set (own_entries v). operator_holds rt item key entry = Inr True))"

subsection \<open>The patch and the merged record of an update\<close>



section \<open>Verified properties\<close>

subsection \<open>Reading properties\<close>

lemma obj_get_obj_set: "obj_get (obj_set ps k v) k' = (if k' = k then v else obj_get ps k')"
  by (simp add: obj_get_def obj_set_def update_conv')

subsection \<open>Schema: documents and objects\<close>

lemma obj_get_fill:
  assumes "a \<noteq> b"
  shows "obj_get (foldl (\<lambda>d f. if obj_get d f = a then obj_set d f b else d) r fs) k =
     (if k \<in> set fs \<and> obj_get r k = a then b else obj_get r k)"
  using assms
proof (induction fs arbitrary: r)
  case Nil
  then show ?case by simp
next
  case (Cons f fs)
  then show ?case by (auto simp: obj_get_obj_set)
qed

lemma obj_get_toDocument:
  "obj_get (toDocument s r) k =
     (if k \<in> fst ` set (definition_of s) \<and> obj_get r k = JUndefined then JNull else obj_get r k)"
  unfolding toDocument_def by (simp add: obj_get_fill)

lemma obj_get_toObject:
  "obj_get (toObject s d) k =
     (if k \<in> fst ` set (definition_of s) \<and> obj_get d k = JNull then JUndefined else obj_get d k)"
  unfolding toObject_def by (simp add: obj_get_fill)

text \<open>
  C4. For a schema \<open>s\<close> and data \<open>r\<close> none of whose declared fields holds \<open>null\<close>, reading any
  field of \<open>toObject (toDocument r)\<close> gives what reading it of \<open>r\<close> gives. \<open>toDocument\<close> sets
  every declared field that reads \<open>undefined\<close> to \<open>null\<close>, \<open>toObject\<close> sets every declared
  field that holds \<open>null\<close> to \<open>undefined\<close>, and in the other direction
  \<open>toDocument (toObject d)\<close> reads as \<open>d\<close> does for every document \<open>d\<close> none of whose declared
  fields reads \<open>undefined\<close>.
\<close>

theorem toObject_toDocument_roundtrip:
  assumes "\<forall>f \<in> fst ` set (definition_of s). obj_get r f \<noteq> JNull"
  shows "(\<forall>f. obj_get (toObject s (toDocument s r)) f = obj_get r f)
    \<and> (\<forall>f \<in> fst ` set (definition_of s).
          obj_get r f = JUndefined \<longrightarrow> obj_get (toDocument s r) f = JNull)
    \<and> (\<forall>f \<in> fst ` set (definition_of s). \<forall>d.
          obj_get d f = JNull \<longrightarrow> obj_get (toObject s d) f = JUndefined)
    \<and> (\<forall>d. (\<forall>f \<in> fst ` set (definition_of s). obj_get d f \<noteq> JUndefined) \<longrightarrow>
          (\<forall>f. obj_get (toDocument s (toObject s d)) f = obj_get d f))"
  using assms by (auto simp: obj_get_toDocument obj_get_toObject)

theorem toObject_toDocument_roundtrip_witness:
  "obj_get [(''name'', JStr ''John Doe'')] ''name'' \<noteq> JNull
   \<and> obj_get [(''name'', JStr ''John Doe'')] ''age'' \<noteq> JNull
   \<and> obj_get (toDocument userSchema [(''name'', JStr ''John Doe'')]) ''age'' = JNull
   \<and> obj_get (toObject userSchema (toDocument userSchema [(''name'', JStr ''John Doe'')])) ''age''
       = JUndefined
   \<and> obj_get (toObject userSchema (toDocument userSchema [(''name'', JStr ''John Doe'')])) ''name''
       = JStr ''John Doe''"
proof -
  have h: "\<forall>f \<in> fst ` set (definition_of userSchema).
      obj_get [(''name'', JStr ''John Doe'')] f \<noteq> JNull"
    by (simp add: userSchema_def obj_get_def)
  show ?thesis
    using h toObject_toDocument_roundtrip [OF h]
    by (simp add: userSchema_def obj_get_def)
qed

subsection \<open>Queries\<close>

lemma every_True_iff: "every p xs = Inr True \<longleftrightarrow> (\<forall>x \<in> set xs. p x = Inr True)"
  by (induction xs) (auto split: sum.splits)

lemma object_iff_not_primitive: "(truthy v \<and> typeof_object v) = (\<not> is_primitive v)"
  by (cases v) auto

lemma clause_matches_iff:
  "clause_matches rt item (key, v) = Inr True \<longleftrightarrow> clause_holds rt item key v"
  by (simp add: clause_matches_def clause_holds_def every_True_iff object_iff_not_primitive)

text \<open>
  The query is a conjunction: \<open>_matchesQuery\<close> answers true exactly when every clause
  holds, and an operator it does not know holds of no record.
\<close>

lemma matchesQuery_iff:
  "matchesQuery rt item (JObj q) = Inr True \<longleftrightarrow> (\<forall>(key, v) \<in> set q. clause_holds rt item key v)"
proof -
  have "matchesQuery rt item (JObj q) = Inr True \<longleftrightarrow>
      (\<forall>x \<in> set q. clause_matches rt item x = Inr True)"
    by (simp add: matchesQuery_def every_True_iff)
  also have "\<dots> \<longleftrightarrow> (\<forall>(key, v) \<in> set q. clause_holds rt item key v)"
    by (simp add: clause_matches_iff [symmetric] split_def)
  finally show ?thesis .
qed

lemma unknown_operator_fails:
  assumes "operator \<notin> {''$gt'', ''$gte'', ''$lt'', ''$lte'', ''$ne'', ''$in'', ''$nin''}"
  shows "operator_holds rt item key (operator, operand) = Inr False"
  using assms by (simp add: operator_holds_def)

lemma primitive_literal_is_compared:
  assumes "is_primitive v"
  shows "matchesQuery rt item (JObj [(key, v)]) = Inr (property_eq (obj_property item key) v)"
proof -
  from assms have "\<not> (truthy v \<and> typeof_object v)"
    by (simp only: object_iff_not_primitive) simp
  then have "clause_matches rt item (key, v) = Inr (property_eq (obj_property item key) v)"
    by (auto simp: clause_matches_def)
  then show ?thesis
    by (cases v) (simp_all add: matchesQuery_def)
qed

text \<open>
  C2. A clause whose value is a \<open>Date\<close> is not compared with the stored field: the value is
  an object, so it is read as a list of operators, and it has none. The clause, and with
  it the query \<open>{key: date}\<close>, holds of every record, whatever the record holds under the
  key; the same goes for the empty array.
\<close>

theorem Date_literal_matches_every_record:
  "matchesQuery rt item (JObj [(key, JDate t)]) = Inr True
   \<and> matchesQuery rt item (JObj [(key, JArr [])]) = Inr True"
  by (simp add: matchesQuery_def clause_matches_def)

subsection \<open>Casting\<close>






subsection \<open>The constructor\<close>

text \<open>
  After the constructor the primary field is declared, and an options object that declares
  it has type \<open>String\<close>; but one that came with another type and without \<open>unique\<close> is
  still without it.
\<close>

lemma constructor_primary:
  "primary (fst (Model_constructor nm s opts)) =
     (case opt_primary opts of None \<Rightarrow> ''_id'' | Some p \<Rightarrow> if p = [] then ''_id'' else p)"
  by (simp add: Model_constructor_def Let_def split_beta)

lemma constructor_definition:
  "definition_of (schema (fst (Model_constructor nm s opts))) =
     (let prim = primary (fst (Model_constructor nm s opts)) in
      case map_of (definition_of s) prim of
        None \<Rightarrow>
          AList.update prim
            (Def \<lparr>ftype = Some TString, required = False, unique = True, validate = None\<rparr>)
            (definition_of s)
      | Some (Bare t) \<Rightarrow> definition_of s
      | Some (Def d) \<Rightarrow>
          if ftype d \<noteq> Some TString then
            AList.update prim (Def (d\<lparr>ftype := Some TString\<rparr>)) (definition_of s)
          else if \<not> unique d then AList.update prim (Def (d\<lparr>unique := True\<rparr>)) (definition_of s)
          else definition_of s)"
  by (simp add: constructor_primary Model_constructor_def Let_def split_beta
      split: option.splits fielddef.splits)

lemma constructor_tagged:
  "tagged (fst (Model_constructor nm s opts)) =
     (case map_of (definition_of s) (primary (fst (Model_constructor nm s opts))) of
        Some (Bare t) \<Rightarrow> [t]
      | _ \<Rightarrow> [])"
  by (simp add: constructor_primary Model_constructor_def Let_def split_beta)

lemma constructor_primary_type:
  assumes "map_of (definition_of (schema (fst (Model_constructor nm s opts))))
      (primary (fst (Model_constructor nm s opts))) = Some d"
  shows "def_type (tagged (fst (Model_constructor nm s opts))) d = Some TString"
  using assms unfolding constructor_definition constructor_tagged
  by (auto simp: Let_def update_conv' split: option.splits fielddef.splits if_splits)

lemma constructor_primary_declared:
  "map_of (definition_of (schema (fst (Model_constructor nm s opts))))
      (primary (fst (Model_constructor nm s opts))) \<noteq> None"
  unfolding constructor_definition
  by (auto simp: Let_def update_conv' split: option.splits fielddef.splits if_splits)

lemma constructor_misses_unique:
  assumes "map_of (definition_of s) (primary (fst (Model_constructor nm s opts))) = Some (Def d)"
      and "ftype d \<noteq> Some TString" and "\<not> unique d"
  shows "map_of (definition_of (schema (fst (Model_constructor nm s opts))))
      (primary (fst (Model_constructor nm s opts))) = Some (Def (d\<lparr>ftype := Some TString\<rparr>))
    \<and> \<not> unique (d\<lparr>ftype := Some TString\<rparr>)"
  using assms unfolding constructor_definition
  by (simp add: Let_def update_conv')

text \<open>
  C9. A primary field declared with a type other than \<open>String\<close> and without \<open>unique\<close> comes
  out of the constructor with type \<open>String\<close> and still without \<open>unique\<close>: the three repairs
  exclude each other.
\<close>

theorem constructor_leaves_non_string_primary_without_unique:
  "definition_of (schema (fst (Model_constructor ''users''
      \<lparr>definition_of =
         [(''_id'', Def \<lparr>ftype = Some TNumber, required = False, unique = False, validate = None\<rparr>)],
       indexes = []\<rparr> no_options)))
   = [(''_id'', Def \<lparr>ftype = Some TString, required = False, unique = False, validate = None\<rparr>)]"
  by (simp add: Model_constructor_def no_options_def Let_def)

subsection \<open>Delete\<close>




subsection \<open>Update\<close>


lemma map_of_spread:
  "map_of (spread a b) k = (case map_of b k of None \<Rightarrow> map_of a k | Some w \<Rightarrow> Some w)"
proof -
  have a: "map_of (map (\<lambda>(k, v). (k, case map_of b k of None \<Rightarrow> v | Some w \<Rightarrow> w)) a) k =
      (case map_of a k of None \<Rightarrow> None
       | Some v \<Rightarrow> Some (case map_of b k of None \<Rightarrow> v | Some w \<Rightarrow> w))"
    by (induction a) (auto split: option.splits)
  have b: "map_of (filter (\<lambda>(k, v). P k) b) k = (if P k then map_of b k else None)" for P
    by (induction b) auto
  have c: "k \<in> fst ` set a \<longleftrightarrow> map_of a k \<noteq> None"
    by (simp add: map_of_eq_None_iff)
  show ?thesis
    unfolding spread_def map_of_append map_add_def a b c
    by (simp split: option.splits)
qed

lemma obj_get_spread:
  "obj_get (spread a b) k = (case map_of b k of None \<Rightarrow> obj_get a k | Some w \<Rightarrow> w)"
  by (simp add: obj_get_def map_of_spread split: option.splits)

















text \<open>
  Validation on update applies the check of required fields to the patch: a patch that
  leaves out a required field is refused, whatever the stored record holds.
\<close>

lemma update_refuses_partial_patch:
  "update_Model test_runtime userModel [john] (JObj [(''name'', JStr ''X'')]) (JStr ''a1'')
     = Inl (ValidationFailed [Required ''age''])"
  by code_simp

text \<open>
  A field of the patch named like a member of \<open>Object.prototype\<close> passes \<open>_prepare\<close> though
  the schema does not declare it, and a patch with a property \<open>hasOwnProperty\<close> makes the
  validation throw.
\<close>

lemma update_merges_builtin_names:
  "update_Model test_runtime userModel [john]
       (JObj [(''name'', JStr ''X''), (''age'', JNum 31), (''constructor'', JStr ''Y'')])
       (JStr ''a1'')
     = Inr ([(''_id'', JStr ''a1''), (''name'', JStr ''X''), (''age'', JNum 31),
             (''constructor'', JStr ''Y'')],
            [[(''_id'', JStr ''a1''), (''name'', JStr ''X''), (''age'', JNum 31),
              (''constructor'', JStr ''Y'')]])
   \<and> update_Model test_runtime userModel [john]
       (JObj [(''name'', JStr ''X''), (''age'', JNum 31), (''hasOwnProperty'', JStr ''Y'')])
       (JStr ''a1'')
     = Inl TypeError"
  by code_simp

subsection \<open>Uniqueness\<close>

text \<open>
  The probe for a unique field finds a stored string equal to the new one, and the create
  is refused; an update is not probed.
\<close>

lemma unique_string_probed_on_create_only:
  "create_Model test_runtime accountModel [ann]
       [(''name'', JStr ''Bob''), (''email'', JStr ''ann@example.com'')] False ''id2''
     = Inl (ValidationFailed [MustBeUnique ''email''])
   \<and> update_Model test_runtime accountModel [ann, bob]
       (JObj [(''name'', JStr ''Bob''), (''email'', JStr ''ann@example.com'')]) (JStr ''id2'')
     = Inr ([(''_id'', JStr ''id2''), (''name'', JStr ''Bob''), (''email'', JStr ''ann@example.com'')],
            [ann, [(''_id'', JStr ''id2''), (''name'', JStr ''Bob''),
                   (''email'', JStr ''ann@example.com'')]])"
  by code_simp

text \<open>
  When the query of the probe throws, the handler of the cursor throws with it and nothing
  settles the promise of \<open>find\<close>, nor that of the \<open>create\<close> awaiting it.
\<close>

lemma create_with_throwing_probe_is_unsettled:
  "find_Model test_runtime [ann] (JObj [(''query'', JObj [(''email'', JObj [(''$in'', JNum 5)])])])
     = Inl Unsettled
   \<and> create_Model test_runtime accountModel [ann]
       [(''name'', JStr ''Bob''), (''email'', JObj [(''$in'', JNum 5)])] False ''id2''
     = Inl Unsettled"
  by code_simp

text \<open>
  C3. Two creates with the same explicit value under a unique field both succeed when the
  value is \<open>null\<close> or a list. \<open>null\<close> passes the validation and is stored cast, as the
  string \<open>"null"\<close>, which the probe for \<open>null\<close> of the second create does not find; a list
  in the probe's query is read as an operator object and compared with nothing. With
  \<open>castToScheme\<close> the data is cast before it is validated, and the second \<open>null\<close> is
  refused.
\<close>

theorem duplicate_null_and_list_values_accepted:
  "create_Model test_runtime accountModel []
      [(''name'', JStr ''Ann''), (''email'', JNull)] False ''id1''
     = Inr ([(''name'', JStr ''Ann''), (''email'', JNull), (''_id'', JStr ''id1'')],
            [[(''name'', JStr ''Ann''), (''email'', JStr ''null''), (''_id'', JStr ''id1'')]])
   \<and> create_Model test_runtime accountModel
      [[(''name'', JStr ''Ann''), (''email'', JStr ''null''), (''_id'', JStr ''id1'')]]
      [(''name'', JStr ''Bob''), (''email'', JNull)] False ''id2''
     = Inr ([(''name'', JStr ''Bob''), (''email'', JNull), (''_id'', JStr ''id2'')],
            [[(''name'', JStr ''Ann''), (''email'', JStr ''null''), (''_id'', JStr ''id1'')],
             [(''name'', JStr ''Bob''), (''email'', JStr ''null''), (''_id'', JStr ''id2'')]])
   \<and> create_Model test_runtime tagModel [] [(''tags'', JArr [JStr ''a''])] False ''id1''
     = Inr ([(''tags'', JArr [JStr ''a'']), (''_id'', JStr ''id1'')],
            [[(''tags'', JArr [JStr ''a'']), (''_id'', JStr ''id1'')]])
   \<and> create_Model test_runtime tagModel [[(''tags'', JArr [JStr ''a'']), (''_id'', JStr ''id1'')]]
      [(''tags'', JArr [JStr ''a''])] False ''id2''
     = Inr ([(''tags'', JArr [JStr ''a'']), (''_id'', JStr ''id2'')],
            [[(''tags'', JArr [JStr ''a'']), (''_id'', JStr ''id1'')],
             [(''tags'', JArr [JStr ''a'']), (''_id'', JStr ''id2'')]])
   \<and> create_Model test_runtime accountModel
      [[(''name'', JStr ''Ann''), (''email'', JStr ''null''), (''_id'', JStr ''id1'')]]
      [(''name'', JStr ''Bob''), (''email'', JNull)] True ''id2''
     = Inl (ValidationFailed [MustBeUnique ''email''])"
  by code_simp

subsection \<open>Synchronisation\<close>

text \<open>
  \<open>update(data, id)\<close> called with an object where the id goes never resolves: an object is
  no key of the store. So it is with every call through the wrapper of \<open>watchChanges\<close>,
  which puts the object last, and with the calls of \<open>pushToServer\<close> and of
  \<open>handleConflict\<close>, written \<open>update(id, data)\<close>.
\<close>

lemma update_Model_object_id: "\<exists>e. update_Model rt m recs a (JObj b) = Inl e"
proof (cases "js_delete a (primary m)")
  case (Inl e)
  then show ?thesis by (simp add: update_Model_def)
next
  case (Inr data')
  show ?thesis
  proof (cases "validateData rt m recs None data' Update (JObj b) []")
    case (Inl e)
    with Inr show ?thesis by (simp add: update_Model_def)
  next
    case v: (Inr validated)
    have "idb_get m recs (JObj b) = Inl DataError" by (simp add: idb_get_def)
    with Inr v show ?thesis by (simp add: update_Model_def)
  qed
qed

lemma wrapped_update_object: "\<exists>e. wrapped_update rt sm now n recs a (JObj b) = Inl e"
proof (induction n arbitrary: b)
  case 0
  then show ?case by (simp add: update_Model_object_id)
next
  case (Suc n)
  then show ?case by simp
qed

lemma model_update_object: "\<exists>e. model_update rt sm now recs a (JObj b) = Inl e"
  by (simp add: model_update_def wrapped_update_object)

lemma watched_update_rejects: "\<exists>e. model_update rt (watchChanges sm) now recs a b = Inl e"
  by (simp add: model_update_def watchChanges_def wrapped_update_object)

lemma confirm_synced_rejects:
  "\<exists>e. confirm_synced rt sm now recs (ack # acks) = (Some e, recs)"
proof -
  obtain localId serverId where ack: "ack = (localId, serverId)" by (cases ack)
  obtain e where "model_update rt sm now recs localId
      (JObj (obj_set (obj_set [(syncStatusField sm, JStr ''synced'')] (serverIdField sm) serverId)
               (lastSyncField sm) (JDate (Some now)))) = Inl e"
    using model_update_object by blast
  with ack show ?thesis by simp
qed

lemma send_update_store:
  assumes "b = Inl e \<or> (\<exists>ps. b = Inr (JObj ps))"
  shows "snd (send_update rt sm now recs a b) = recs"
proof (cases a)
  case (Inl e')
  then show ?thesis by (simp add: send_update_def)
next
  case a: (Inr a')
  from assms show ?thesis
  proof (elim disjE exE)
    assume "b = Inl e"
    with a show ?thesis by (simp add: send_update_def)
  next
    fix ps assume b: "b = Inr (JObj ps)"
    obtain e' where "model_update rt sm now recs a' (JObj ps) = Inl e'"
      using model_update_object by blast
    with a b show ?thesis by (simp add: send_update_def)
  qed
qed

lemma remote_values_shape:
  "(\<exists>e. remote_values sm now serverItem = Inl e) \<or> (\<exists>ps. remote_values sm now serverItem = Inr (JObj ps))"
  by (simp add: remote_values_def split: sum.splits)

lemma send_remote_store:
  "snd (send_update rt sm now recs a (remote_values sm now serverItem)) = recs"
  using remote_values_shape [of sm now serverItem]
  by (elim disjE exE) (simp_all add: send_update_store)

lemma resolve_item_store: "snd (resolve_item rt sm now localItem serverItem recs item) = recs"
  by (simp add: resolve_item_def send_remote_store send_update_store conflict_values_def)

lemma resolve_items_store:
  "snd (resolve_items rt sm now localItem serverItem recs items) = recs"
proof (induction items arbitrary: recs)
  case Nil
  then show ?case by simp
next
  case (Cons item items)
  have "snd (resolve_item rt sm now localItem serverItem recs item) = recs"
    by (rule resolve_item_store)
  then show ?case
    using Cons.IH by (simp add: split_beta)
qed

text \<open>Whatever the policy, \<open>handleConflict\<close> leaves the records of the store as they are.\<close>

lemma handleConflict_store:
  "handleConflict rt sm now recs localItem serverItem = Inr (rs, recs') \<Longrightarrow> recs' = recs"
proof (cases localItem)
  case (JArr items)
  assume "handleConflict rt sm now recs localItem serverItem = Inr (rs, recs')"
  with JArr have "resolve_items rt sm now (JArr items) serverItem recs items = (rs, recs')"
    by (simp add: handleConflict_def)
  then have "snd (resolve_items rt sm now (JArr items) serverItem recs items) = recs'"
    by simp
  then show ?thesis by (simp add: resolve_items_store)
qed (simp_all add: handleConflict_def)

lemma scan_all: "\<not> truthy q \<Longrightarrow> \<not> truthy flds \<Longrightarrow> scan rt q flds recs = Inr recs"
  by (induction recs) simp_all

text \<open>
  \<open>find\<close> given a filter that is not under \<open>query\<close> finds every record.
\<close>

lemma find_Model_bare_filter:
  assumes "k \<noteq> ''query''" "k \<noteq> ''fields''"
  shows "find_Model rt recs (JObj [(k, v)]) = Inr recs"
  using assms by (simp add: find_Model_def own_get_def or_null_def scan_all)

text \<open>
  C5. With the synchronisation fields installed and \<open>watchChanges\<close> in place, a record
  created through the wrapper is stored as modified; but an update through the wrapper is
  rejected whichever way round its arguments are given, and \<open>pushToServer\<close> with an
  acknowledgement for the record fails and leaves the record modified, its server id not
  set.
\<close>

theorem watched_update_and_push_leave_record_unsynced:
  "model_create test_runtime (watchChanges (testSync ''server-wins'')) 2000 []
      [(''name'', JStr ''Alice''), (''age'', JNum 28)] False ''id1''
     = Inr ([(''name'', JStr ''Alice''), (''age'', JNum 28), (''_syncStatus'', JStr ''modified''),
             (''_localUpdatedAt'', JDate (Some 2000)), (''_id'', JStr ''id1'')],
            [[(''name'', JStr ''Alice''), (''age'', JNum 28), (''_syncStatus'', JStr ''modified''),
              (''_localUpdatedAt'', JDate (Some 2000)), (''_id'', JStr ''id1'')]])
   \<and> model_update test_runtime (watchChanges (testSync ''server-wins'')) 2000 [alice]
        (JObj [(''name'', JStr ''Alicia'')]) (JStr ''id1'') = Inl DataError
   \<and> model_update test_runtime (watchChanges (testSync ''server-wins'')) 2000 [alice]
        (JStr ''id1'') (JObj [(''name'', JStr ''Alicia'')])
       = Inl (ValidationFailed [Required ''name''])
   \<and> pushToServer test_runtime (watchChanges (testSync ''server-wins'')) 2000 [alice]
        (Some [(JStr ''id1'', JStr ''srv1'')])
       = (Failed (ValidationFailed [Required ''name'']), [alice])
   \<and> pushToServer test_runtime (testSync ''server-wins'') 2000 [alice]
        (Some [(JStr ''id1'', JStr ''srv1'')])
       = (Failed (ValidationFailed [Required ''name'']), [alice])"
  by code_simp

text \<open>
  C6. Under the client-wins policy \<open>handleConflict\<close> overwrites no record. For a local
  record that is synchronised and a remote copy that differs, the update it sends is
  rejected and the record stays as it was, not overwritten and not marked. For a local
  record that is modified the same update is sent and rejected: the test of the status
  reads it on the array \<open>find\<close> answered, where it is \<open>undefined\<close>, so the edit survives
  only because the update fails. The update \<open>handleConflict\<close> means, with the data first
  and the id second, overwrites the synchronised record.
\<close>

theorem handleConflict_client_wins_overwrites_nothing:
  "obj_get dana ''_syncStatus'' = JStr ''synced''
   \<and> handleConflict test_runtime (testSync ''client-wins'') 2000 [dana] (JArr [JObj dana])
        (JObj [(''_id'', JStr ''id2''), (''name'', JStr ''Dana R''), (''age'', JNum 41)])
       = Inr ([Inl TypeError], [dana])
   \<and> obj_get alice ''_syncStatus'' = JStr ''modified''
   \<and> handleConflict test_runtime (testSync ''client-wins'') 2000 [alice] (JArr [JObj alice])
        (JObj [(''_id'', JStr ''id1''), (''name'', JStr ''Alice B''), (''age'', JNum 29)])
       = Inr ([Inl TypeError], [alice])
   \<and> remote_values (testSync ''client-wins'') 2000
        (JObj [(''_id'', JStr ''id2''), (''name'', JStr ''Dana R''), (''age'', JNum 41)])
       = Inr (JObj [(''_id'', JStr ''id2''), (''name'', JStr ''Dana R''), (''age'', JNum 41),
                    (''_syncStatus'', JStr ''synced''), (''_lastSync'', JDate (Some 2000))])
   \<and> model_update test_runtime (testSync ''client-wins'') 2000 [dana]
        (JObj [(''_id'', JStr ''id2''), (''name'', JStr ''Dana R''), (''age'', JNum 41),
               (''_syncStatus'', JStr ''synced''), (''_lastSync'', JDate (Some 2000))])
        (JStr ''id2'')
       = Inr ([(''_id'', JStr ''id2''), (''name'', JStr ''Dana R''), (''age'', JNum 41),
               (''_syncStatus'', JStr ''synced''), (''_lastSync'', JDate (Some 2000))],
              [[(''_id'', JStr ''id2''), (''name'', JStr ''Dana R''), (''age'', JNum 41),
                (''_syncStatus'', JStr ''synced''), (''_lastSync'', JDate (Some 2000))]])"
  by code_simp

text \<open>
  C7. \<open>getLastSyncTimestamp\<close> passes the status filter to \<open>find\<close> where \<open>find\<close> expects
  \<open>{query, fields}\<close>, so every record is found: with one record, modified and not synced,
  it answers that record's last synchronisation date and not \<open>null\<close>.
\<close>

theorem getLastSyncTimestamp_reads_unsynced_record:
  "obj_get alice ''_syncStatus'' = JStr ''modified''
   \<and> find_Model test_runtime [alice] (JObj [(''_syncStatus'', JStr ''synced'')]) = Inr [alice]
   \<and> getLastSyncTimestamp test_runtime (testSync ''server-wins'') [alice] = Inr (JDate (Some 1000))"
  by code_simp


end
